theory Spec2Isabelle
  imports Complex_Main
begin

section \<open>Python and NumPy values\<close>

text \<open>
  The exceptions that the functions of \<^verbatim>\<open>sdt.py\<close> can raise. \<^verbatim>\<open>raise('...')\<close> with a
  string operand raises \<open>TypeError\<close> in Python 3 (a string is not an exception), so the two
  validation failures of the source are \<open>TypeError\<close>.
\<close>

datatype py_error = TypeError | ValueError | ZeroDivisionError | IndexError

text \<open>
  A NumPy \<^verbatim>\<open>float64\<close>: a finite number, one of the two infinities, or not-a-number.
  Finite arithmetic is idealised to the reals (no rounding, no overflow), and the sign of
  a zero is not tracked. The special values follow IEEE 754, which is what NumPy computes
  (with a warning, never an exception).
\<close>

datatype npfloat = Fin real | PInf | NInf | NaN

fun isinf :: "npfloat \<Rightarrow> bool" where
  "isinf PInf = True"
| "isinf NInf = True"
| "isinf _ = False"

fun isnan :: "npfloat \<Rightarrow> bool" where
  "isnan NaN = True"
| "isnan _ = False"

fun isfinite :: "npfloat \<Rightarrow> bool" where
  "isfinite (Fin _) = True"
| "isfinite _ = False"

fun fneg :: "npfloat \<Rightarrow> npfloat" where
  "fneg (Fin a) = Fin (- a)"
| "fneg PInf = NInf"
| "fneg NInf = PInf"
| "fneg NaN = NaN"

fun fadd :: "npfloat \<Rightarrow> npfloat \<Rightarrow> npfloat" where
  "fadd (Fin a) (Fin b) = Fin (a + b)"
| "fadd NaN _ = NaN"
| "fadd _ NaN = NaN"
| "fadd PInf NInf = NaN"
| "fadd NInf PInf = NaN"
| "fadd PInf _ = PInf"
| "fadd NInf _ = NInf"
| "fadd _ PInf = PInf"
| "fadd _ NInf = NInf"

definition fsub :: "npfloat \<Rightarrow> npfloat \<Rightarrow> npfloat" where
  "fsub a b = fadd a (fneg b)"

text \<open>The sign of a product or quotient with an infinite operand.\<close>

definition signed_inf :: "bool \<Rightarrow> npfloat" where
  "signed_inf positive = (if positive then PInf else NInf)"

fun fmul :: "npfloat \<Rightarrow> npfloat \<Rightarrow> npfloat" where
  "fmul (Fin a) (Fin b) = Fin (a * b)"
| "fmul NaN _ = NaN"
| "fmul _ NaN = NaN"
| "fmul (Fin a) PInf = (if a = 0 then NaN else signed_inf (0 < a))"
| "fmul (Fin a) NInf = (if a = 0 then NaN else signed_inf (a < 0))"
| "fmul PInf (Fin b) = (if b = 0 then NaN else signed_inf (0 < b))"
| "fmul NInf (Fin b) = (if b = 0 then NaN else signed_inf (b < 0))"
| "fmul PInf PInf = PInf"
| "fmul PInf NInf = NInf"
| "fmul NInf PInf = NInf"
| "fmul NInf NInf = PInf"

text \<open>
  NumPy's true division: a finite nonzero number over zero is an infinity, zero over zero
  and infinity over infinity are not-a-number. No exception is raised.
\<close>

fun fdiv :: "npfloat \<Rightarrow> npfloat \<Rightarrow> npfloat" where
  "fdiv (Fin a) (Fin b) =
     (if b = 0 then (if a = 0 then NaN else signed_inf (0 < a)) else Fin (a / b))"
| "fdiv NaN _ = NaN"
| "fdiv _ NaN = NaN"
| "fdiv (Fin a) PInf = Fin 0"
| "fdiv (Fin a) NInf = Fin 0"
| "fdiv PInf (Fin b) = signed_inf (0 \<le> b)"
| "fdiv NInf (Fin b) = signed_inf (b < 0)"
| "fdiv PInf PInf = NaN"
| "fdiv PInf NInf = NaN"
| "fdiv NInf PInf = NaN"
| "fdiv NInf NInf = NaN"

text \<open>\<^verbatim>\<open>np.log\<close>: minus infinity at zero, not-a-number below it.\<close>

fun flog :: "npfloat \<Rightarrow> npfloat" where
  "flog (Fin a) = (if 0 < a then Fin (ln a) else if a = 0 then NInf else NaN)"
| "flog PInf = PInf"
| "flog NInf = NaN"
| "flog NaN = NaN"

text \<open>\<^verbatim>\<open>np.sqrt\<close>.\<close>

fun fsqrt :: "npfloat \<Rightarrow> npfloat" where
  "fsqrt (Fin a) = (if 0 \<le> a then Fin (sqrt a) else NaN)"
| "fsqrt PInf = PInf"
| "fsqrt NInf = NaN"
| "fsqrt NaN = NaN"

text \<open>\<^verbatim>\<open>np.sum\<close> of a list of floats; the sum of the empty list is \<open>0.0\<close>.\<close>

definition np_sum :: "npfloat list \<Rightarrow> npfloat" where
  "np_sum xs = foldl fadd (Fin 0) xs"

text \<open>
  Python's \<^verbatim>\<open>/\<close> on Python numbers raises \<open>ZeroDivisionError\<close> when the divisor is zero.
\<close>

definition py_div :: "real \<Rightarrow> real \<Rightarrow> py_error + real" where
  "py_div a b = (if b = 0 then Inl ZeroDivisionError else Inr (a / b))"

text \<open>Sequencing of computations that may raise.\<close>

definition bindE :: "py_error + 'a \<Rightarrow> ('a \<Rightarrow> py_error + 'b) \<Rightarrow> py_error + 'b" where
  "bindE m f = (case m of Inl e \<Rightarrow> Inl e | Inr v \<Rightarrow> f v)"

section \<open>dprime\<close>

text \<open>
  The two rates that \<^verbatim>\<open>dprime\<close> hands to the inverse CDF, after its floor and ceiling
  replacement. The arguments are Python numbers, so both divisions raise on a zero total.
\<close>

definition dprime_rates :: "real \<Rightarrow> real \<Rightarrow> real \<Rightarrow> real \<Rightarrow> py_error + (real \<times> real)" where
  "dprime_rates hits misses fas crs =
     (let half_hit = 0.5 * (hits + misses);
          half_fa = 0.5 * (fas + crs)
      in bindE (py_div hits (hits + misses)) (\<lambda>hit_rate.
         let hit_rate = (if hit_rate = 1 then 1 - half_hit else hit_rate);
             hit_rate = (if hit_rate = 0 then half_hit else hit_rate)
         in bindE (py_div fas (fas + crs)) (\<lambda>fa_rate.
            let fa_rate = (if fa_rate = 1 then 1 - half_fa else fa_rate);
                fa_rate = (if fa_rate = 0 then half_fa else fa_rate)
            in Inr (hit_rate, fa_rate))))"

text \<open>
  \<^verbatim>\<open>dprime\<close>, with \<^verbatim>\<open>norm.ppf\<close> (SciPy's inverse normal CDF, not part of the repository)
  as the parameter \<open>ppf\<close>.
\<close>

definition dprime :: "(npfloat \<Rightarrow> npfloat) \<Rightarrow> real \<Rightarrow> real \<Rightarrow> real \<Rightarrow> real \<Rightarrow> py_error + npfloat" where
  "dprime ppf hits misses fas crs =
     bindE (dprime_rates hits misses fas crs) (\<lambda>(hit_rate, fa_rate).
       Inr (fsub (ppf (Fin hit_rate)) (ppf (Fin fa_rate))))"

section \<open>trials2counts\<close>

text \<open>
  The filter of the first loop: a trial is kept when all three of its fields are in range.
  The fields of a trial are Python numbers, integers or floats, embedded in the reals: a
  rating such as \<open>1.5\<close> passes the comparison with the bounds.
\<close>

definition in_range :: "int \<Rightarrow> real \<times> real \<times> real \<Rightarrow> bool" where
  "in_range nRatings t =
     (case t of (s, rp, rt) \<Rightarrow>
        (s = 0 \<or> s = 1) \<and> (rp = 0 \<or> rp = 1) \<and> (rt \<ge> 1 \<and> rt \<le> real_of_int nRatings))"

text \<open>
  The inner loop over the trials for one response \<open>rp0\<close> and one rating \<open>r\<close>: the pair
  of counters \<open>(cs1, cs2)\<close> is threaded through. The rating \<open>r\<close> comes from a \<^verbatim>\<open>range\<close>
  and is an integer; a trial counts when its rating equals it.
\<close>

fun tally :: "real \<Rightarrow> int \<Rightarrow> (real \<times> real \<times> real) list \<Rightarrow> nat \<times> nat \<Rightarrow> nat \<times> nat" where
  "tally rp0 r [] (cs1, cs2) = (cs1, cs2)"
| "tally rp0 r ((s, rp, rt) # ts) (cs1, cs2) =
     tally rp0 r ts
       (if s = 0 \<and> rp = rp0 \<and> rt = real_of_int r then cs1 + 1 else cs1,
        if s = 1 \<and> rp = rp0 \<and> rt = real_of_int r then cs2 + 1 else cs2)"

text \<open>
  \<^verbatim>\<open>trials2counts\<close>. \<^verbatim>\<open>zip\<close> stops at the shortest of its arguments. The default
  \<open>padAmount\<close> is computed whether or not padding is requested, and divides by
  \<open>2 * nRatings\<close>. Unpadded counts are Python integers, embedded in the reals here.
\<close>

definition trials2counts ::
  "real list \<Rightarrow> real list \<Rightarrow> real list \<Rightarrow> int \<Rightarrow> bool \<Rightarrow> real option
     \<Rightarrow> py_error + (real list \<times> real list)" where
  "trials2counts stimID response rating nRatings padCells padAmount =
     (if \<not> (length stimID = length response) \<and> (length stimID = length rating)
      then Inl TypeError
      else
        let kept = filter (in_range nRatings) (zip stimID (zip response rating));
            tempstim = map fst kept;
            tempresp = map (fst \<circ> snd) kept;
            tempratg = map (snd \<circ> snd) kept;
            trials = zip tempstim (zip tempresp tempratg)
        in bindE (case padAmount of
                    None \<Rightarrow> py_div 1 (2 * real_of_int nRatings)
                  | Some p \<Rightarrow> Inr p) (\<lambda>padAmount.
           let rS1 = map (\<lambda>r. tally 0 r trials (0, 0)) (rev [1..nRatings]);
               rS2 = map (\<lambda>r. tally 1 r trials (0, 0)) [1..nRatings];
               nR_S1 = map (real \<circ> fst) rS1 @ map (real \<circ> fst) rS2;
               nR_S2 = map (real \<circ> snd) rS1 @ map (real \<circ> snd) rS2
           in if padCells
              then Inr (map (\<lambda>n. n + padAmount) nR_S1, map (\<lambda>n. n + padAmount) nR_S2)
              else Inr (nR_S1, nR_S2)))"

section \<open>Python list slices\<close>

text \<open>
  The bound of a slice: a negative bound counts from the end, and every bound is clipped to
  the list.
\<close>

definition slice_bound :: "nat \<Rightarrow> int \<Rightarrow> nat" where
  "slice_bound n i = (if i < 0 then nat (max 0 (int n + i)) else min n (nat i))"

text \<open>\<^verbatim>\<open>xs[lo:hi]\<close> and \<^verbatim>\<open>xs[lo:]\<close>.\<close>

definition py_slice :: "'a list \<Rightarrow> int \<Rightarrow> int \<Rightarrow> 'a list" where
  "py_slice xs lo hi =
     take (slice_bound (length xs) hi - slice_bound (length xs) lo)
       (drop (slice_bound (length xs) lo) xs)"

definition py_slice_from :: "'a list \<Rightarrow> int \<Rightarrow> 'a list" where
  "py_slice_from xs lo = drop (slice_bound (length xs) lo) xs"

section \<open>fit\_meta\_d\_logL\<close>

text \<open>
  The distribution functions are parameters of the fit: \<^verbatim>\<open>fncdf(x, mu, sd)\<close> and
  \<^verbatim>\<open>fninv(p)\<close>, by default SciPy's \<^verbatim>\<open>norm.cdf\<close> and \<^verbatim>\<open>norm.ppf\<close>, which return NumPy floats.
\<close>

type_synonym cdf = "npfloat \<Rightarrow> npfloat \<Rightarrow> npfloat \<Rightarrow> npfloat"
type_synonym invcdf = "npfloat \<Rightarrow> npfloat"

text \<open>
  The list \<^verbatim>\<open>inputObj\<close>, unpacked by position in the source:
  \<open>(nR_S1, nR_S2, nRatings, d1, t1c1, s, fncdf, fninv)\<close>. The counts and \<open>s\<close> are
  Python numbers; \<open>d1\<close> and \<open>t1c1\<close> are the NumPy floats that \<^verbatim>\<open>fit_meta_d_MLE\<close> computes.
  The seventh entry of the source, \<^verbatim>\<open>constant_criterion\<close>, is always the string
  \<^verbatim>\<open>'meta_d1 * (t1c1 / d1)'\<close>; what \<^verbatim>\<open>eval\<close> makes of it is the function below.
\<close>

type_synonym inputObj =
  "real list \<times> real list \<times> nat \<times> npfloat \<times> npfloat \<times> real \<times> cdf \<times> invcdf"

definition constant_criterion :: "npfloat \<Rightarrow> npfloat \<Rightarrow> npfloat \<Rightarrow> npfloat" where
  "constant_criterion meta_d1 t1c1 d1 = fmul meta_d1 (fdiv t1c1 d1)"

text \<open>
  Means and standard deviations of the S1 and S2 distributions, shifted so that the type 1
  criterion is at 0: \<open>(S1mu, S1sd, S2mu, S2sd)\<close>.
\<close>

definition sdt_means :: "npfloat list \<Rightarrow> inputObj \<Rightarrow> py_error + (npfloat \<times> real \<times> npfloat \<times> real)" where
  "sdt_means parameters inputObj =
     (case inputObj of (nR_S1, nR_S2, nRatings, d1, t1c1, s, fncdf, fninv) \<Rightarrow>
        (case parameters of
           [] \<Rightarrow> Inl IndexError
         | meta_d1 # t2c1 \<Rightarrow>
             let S1mu = fdiv (fneg meta_d1) (Fin 2);
                 S1sd = 1;
                 S2mu = fdiv meta_d1 (Fin 2)
             in bindE (py_div S1sd s) (\<lambda>S2sd.
                let S1mu = fsub S1mu (constant_criterion meta_d1 t1c1 d1);
                    S2mu = fsub S2mu (constant_criterion meta_d1 t1c1 d1)
                in Inr (S1mu, S1sd, S2mu, S2sd))))"

text \<open>The type 2 response counts \<open>(nC_rS1, nI_rS1, nC_rS2, nI_rS2)\<close>.\<close>

definition type2_counts ::
  "inputObj \<Rightarrow> py_error + (real list \<times> real list \<times> real list \<times> real list)" where
  "type2_counts inputObj =
     (case inputObj of (nR_S1, nR_S2, nRatings, d1, t1c1, s, fncdf, fninv) \<Rightarrow>
        if length nR_S1 < nRatings \<or> length nR_S2 < nRatings then Inl IndexError
        else if 0 < nRatings \<and> (length nR_S2 < 2 * nRatings \<or> length nR_S1 < 2 * nRatings)
        then Inl IndexError
        else Inr (take nRatings nR_S1, take nRatings nR_S2,
                  take nRatings (drop nRatings nR_S2), take nRatings (drop nRatings nR_S1)))"

text \<open>
  The criteria with the type 1 criterion (0) in the middle and an infinity at each end.
\<close>

definition t2c1x :: "nat \<Rightarrow> npfloat list \<Rightarrow> npfloat list" where
  "t2c1x nRatings t2c1 =
     [NInf] @ py_slice t2c1 0 (int nRatings - 1) @ [Fin 0]
       @ py_slice_from t2c1 (int nRatings - 1) @ [PInf]"

text \<open>
  The type 2 probabilities \<open>(prC_rS1, prI_rS1, prC_rS2, prI_rS2)\<close>: each bin is a
  difference of two CDF values over the area on its side of the type 1 criterion.
\<close>

definition type2_probs ::
  "cdf \<Rightarrow> nat \<Rightarrow> npfloat list \<Rightarrow> npfloat \<Rightarrow> real \<Rightarrow> npfloat \<Rightarrow> real
     \<Rightarrow> py_error + (npfloat list \<times> npfloat list \<times> npfloat list \<times> npfloat list)" where
  "type2_probs fncdf nRatings x S1mu S1sd S2mu S2sd =
     (let t1c1 = Fin 0;
          C_area_rS1 = fncdf t1c1 S1mu (Fin S1sd);
          I_area_rS1 = fncdf t1c1 S2mu (Fin S2sd);
          C_area_rS2 = fsub (Fin 1) (fncdf t1c1 S2mu (Fin S2sd));
          I_area_rS2 = fsub (Fin 1) (fncdf t1c1 S1mu (Fin S1sd))
      in if 0 < nRatings \<and> length x < 2 * nRatings + 1 then Inl IndexError
         else Inr
          (map (\<lambda>i. fdiv (fsub (fncdf (x ! (i + 1)) S1mu (Fin S1sd))
                              (fncdf (x ! i) S1mu (Fin S1sd))) C_area_rS1) [0..<nRatings],
           map (\<lambda>i. fdiv (fsub (fncdf (x ! (i + 1)) S2mu (Fin S2sd))
                              (fncdf (x ! i) S2mu (Fin S2sd))) I_area_rS1) [0..<nRatings],
           map (\<lambda>i. fdiv (fsub (fsub (Fin 1) (fncdf (x ! (nRatings + i)) S2mu (Fin S2sd)))
                              (fsub (Fin 1) (fncdf (x ! (nRatings + i + 1)) S2mu (Fin S2sd))))
                        C_area_rS2) [0..<nRatings],
           map (\<lambda>i. fdiv (fsub (fsub (Fin 1) (fncdf (x ! (nRatings + i)) S1mu (Fin S1sd)))
                              (fsub (Fin 1) (fncdf (x ! (nRatings + i + 1)) S1mu (Fin S1sd))))
                        I_area_rS2) [0..<nRatings]))"

text \<open>The probabilities that \<^verbatim>\<open>fit_meta_d_logL\<close> computes for a parameter vector.\<close>

definition model_probs ::
  "npfloat list \<Rightarrow> inputObj
     \<Rightarrow> py_error + (npfloat list \<times> npfloat list \<times> npfloat list \<times> npfloat list)" where
  "model_probs parameters inputObj =
     (case inputObj of (nR_S1, nR_S2, nRatings, d1, t1c1, s, fncdf, fninv) \<Rightarrow>
        bindE (sdt_means parameters inputObj) (\<lambda>(S1mu, S1sd, S2mu, S2sd).
          type2_probs fncdf nRatings (t2c1x nRatings (tl parameters)) S1mu S1sd S2mu S2sd))"

text \<open>
  The log likelihood before the safeguard: every count times the logarithm of its
  probability, summed over the bins.
\<close>

definition logL_sum ::
  "nat \<Rightarrow> real list \<times> real list \<times> real list \<times> real list
     \<Rightarrow> npfloat list \<times> npfloat list \<times> npfloat list \<times> npfloat list \<Rightarrow> npfloat" where
  "logL_sum nRatings counts probs =
     (case counts of (nC_rS1, nI_rS1, nC_rS2, nI_rS2) \<Rightarrow>
      case probs of (prC_rS1, prI_rS1, prC_rS2, prI_rS2) \<Rightarrow>
        np_sum (map (\<lambda>i.
          fadd (fadd (fadd (fmul (Fin (nC_rS1 ! i)) (flog (prC_rS1 ! i)))
                           (fmul (Fin (nI_rS1 ! i)) (flog (prI_rS1 ! i))))
                     (fmul (Fin (nC_rS2 ! i)) (flog (prC_rS2 ! i))))
               (fmul (Fin (nI_rS2 ! i)) (flog (prI_rS2 ! i)))) [0..<nRatings]))"

text \<open>
  \<^verbatim>\<open>fit_meta_d_logL\<close>: the negative log likelihood, with \<open>-1e+300\<close> in place of an
  infinite or not-a-number log likelihood.
\<close>

definition fit_meta_d_logL :: "npfloat list \<Rightarrow> inputObj \<Rightarrow> py_error + npfloat" where
  "fit_meta_d_logL parameters inputObj =
     (case inputObj of (nR_S1, nR_S2, nRatings, d1, t1c1, s, fncdf, fninv) \<Rightarrow>
        bindE (sdt_means parameters inputObj) (\<lambda>(S1mu, S1sd, S2mu, S2sd).
        bindE (type2_counts inputObj) (\<lambda>counts.
        bindE (type2_probs fncdf nRatings (t2c1x nRatings (tl parameters)) S1mu S1sd S2mu S2sd)
          (\<lambda>probs.
             let logL = logL_sum nRatings counts probs;
                 logL = (if isinf logL \<or> isnan logL then Fin (- (10 ^ 300)) else logL)
             in Inr (fneg logL)))))"

section \<open>fit\_meta\_d\_MLE\<close>


text \<open>
  The linear constraint \<open>(A, lb, ub)\<close>: one row for each \<open>ii\<close> in
  \<^verbatim>\<open>range(nCriteria-2)\<close>, over a parameter vector that starts with meta-d'.
\<close>

definition linear_constraint :: "int \<Rightarrow> real list list \<times> npfloat list \<times> real list" where
  "linear_constraint nCriteria =
     (let rows = [0..<nat (nCriteria - 2)]
      in (map (\<lambda>ii. replicate (ii + 1) 0 @ [1, - 1]
                      @ replicate (nat (nCriteria - 2) - ii - 1) 0) rows,
          map (\<lambda>ii. NInf) rows,
          map (\<lambda>ii. - (1 / 100000)) rows))"

text \<open>
  The box bounds \<open>(LB, UB)\<close>. \<^verbatim>\<open>np.ones\<close> and \<^verbatim>\<open>np.zeros\<close> raise \<open>ValueError\<close> on a
  negative length, which happens for empty count vectors.
\<close>

definition bounds :: "int \<Rightarrow> py_error + (real list \<times> real list)" where
  "bounds nCriteria =
     (let n = (nCriteria - 1) div 2
      in if n < 0 then Inl ValueError
         else Inr ([- 10] @ replicate (nat n) (- 20) @ replicate (nat n) 0,
                   [10] @ replicate (nat n) 0 @ replicate (nat n) 20))"

text \<open>
  The cumulative rates \<open>(ratingHR, ratingFAR)\<close> at the splits \<open>c = 1, \<dots>, 2 * nRatings - 1\<close>.
  The counts are Python numbers, so a zero total raises.
\<close>

definition rating_rates :: "real list \<Rightarrow> real list \<Rightarrow> nat \<Rightarrow> py_error + (real list \<times> real list)" where
  "rating_rates nR_S1 nR_S2 nRatings =
     (if nRatings * 2 \<le> 1 then Inr ([], [])
      else if sum_list nR_S2 = 0 \<or> sum_list nR_S1 = 0 then Inl ZeroDivisionError
      else Inr (map (\<lambda>c. sum_list (drop c nR_S2) / sum_list nR_S2) [1..<nRatings * 2],
                map (\<lambda>c. sum_list (drop c nR_S1) / sum_list nR_S1) [1..<nRatings * 2]))"

text \<open>
  The indices of the type 2 criteria: all of \<open>0, \<dots>, 2 * nRatings - 2\<close> except
  \<open>t1_index\<close>, in increasing order (the order in which CPython lists a set of small
  non-negative integers).
\<close>

definition t2_index :: "nat \<Rightarrow> nat list" where
  "t2_index nRatings = filter (\<lambda>i. i \<noteq> nRatings - 1) [0..<2 * nRatings - 1]"

text \<open>
  The initial guess together with the type 1 values it is built from:
  \<open>(guess, d1, t1c1)\<close>. \<^verbatim>\<open>fninv\<close> is applied to the cumulative rates as they are. With no
  rating at all, \<open>t1_index\<close> is \<open>-1\<close> and indexing the empty list of rates raises.
\<close>

definition initial_guess ::
  "real \<Rightarrow> invcdf \<Rightarrow> real list \<Rightarrow> real list \<Rightarrow> nat
     \<Rightarrow> py_error + (npfloat list \<times> npfloat \<times> npfloat)" where
  "initial_guess s fninv nR_S1 nR_S2 nRatings =
     bindE (rating_rates nR_S1 nR_S2 nRatings) (\<lambda>(ratingHR, ratingFAR).
       let t1_index = nRatings - 1
       in bindE (py_div 1 s) (\<lambda>inv_s.
          if nRatings = 0 then Inl IndexError
          else
            let d1 = fsub (fmul (Fin inv_s) (fninv (Fin (ratingHR ! t1_index))))
                          (fninv (Fin (ratingFAR ! t1_index)));
                meta_d1 = d1
            in bindE (py_div (- 1) (1 + s)) (\<lambda>k.
               let c1 = map (\<lambda>(hr, far). fmul (Fin k) (fadd (fninv (Fin hr)) (fninv (Fin far))))
                          (zip ratingHR ratingFAR);
                   t1c1 = c1 ! t1_index;
                   t2c1 = map (\<lambda>i. c1 ! i) (t2_index nRatings);
                   guess = [meta_d1]
                     @ map (\<lambda>c. fsub c (constant_criterion meta_d1 t1c1 d1)) t2c1
               in Inr (guess, d1, t1c1))))"

text \<open>
  The observed type 2 rates \<open>(obs_FAR2_rS2, obs_HR2_rS2, obs_FAR2_rS1, obs_HR2_rS1)\<close>. The
  counts of "S2" responses are slices of the input lists, so their quotients are Python
  divisions and raise on a zero total; the counts of "S1" responses went through
  \<^verbatim>\<open>np.flip\<close>, so their quotients are NumPy divisions.
\<close>

definition observed_rates ::
  "real list \<Rightarrow> real list \<Rightarrow> nat
     \<Rightarrow> py_error + (real list \<times> real list \<times> npfloat list \<times> npfloat list)" where
  "observed_rates nR_S1 nR_S2 nRatings =
     (let I_nR_rS2 = drop nRatings nR_S1;
          I_nR_rS1 = rev (take nRatings nR_S2);
          C_nR_rS2 = drop nRatings nR_S2;
          C_nR_rS1 = rev (take nRatings nR_S1)
      in if 0 < nRatings - 1 \<and> sum_list I_nR_rS2 = 0 then Inl ZeroDivisionError
         else if 0 < nRatings - 1 \<and> sum_list C_nR_rS2 = 0 then Inl ZeroDivisionError
         else Inr
           (map (\<lambda>i. sum_list (drop (i + 1) I_nR_rS2) / sum_list I_nR_rS2) [0..<nRatings - 1],
            map (\<lambda>i. sum_list (drop (i + 1) C_nR_rS2) / sum_list C_nR_rS2) [0..<nRatings - 1],
            map (\<lambda>i. fdiv (Fin (sum_list (drop (i + 1) I_nR_rS1))) (Fin (sum_list I_nR_rS1)))
              [0..<nRatings - 1],
            map (\<lambda>i. fdiv (Fin (sum_list (drop (i + 1) C_nR_rS1))) (Fin (sum_list C_nR_rS1)))
              [0..<nRatings - 1]))"

text \<open>
  The estimated type 2 rates \<open>(est_FAR2_rS2, est_HR2_rS2, est_FAR2_rS1, est_HR2_rS1)\<close> at
  the fitted criteria \<open>t2c1\<close>.
\<close>

definition estimated_rates ::
  "cdf \<Rightarrow> nat \<Rightarrow> npfloat list \<Rightarrow> npfloat \<Rightarrow> npfloat \<Rightarrow> real \<Rightarrow> npfloat \<Rightarrow> real
     \<Rightarrow> py_error + (npfloat list \<times> npfloat list \<times> npfloat list \<times> npfloat list)" where
  "estimated_rates fncdf nRatings t2c1 mt1c1 S1mu S1sd S2mu S2sd =
     (let C_area_rS2 = fsub (Fin 1) (fncdf mt1c1 S2mu (Fin S2sd));
          I_area_rS2 = fsub (Fin 1) (fncdf mt1c1 S1mu (Fin S1sd));
          C_area_rS1 = fncdf mt1c1 S1mu (Fin S1sd);
          I_area_rS1 = fncdf mt1c1 S2mu (Fin S2sd)
      in if 0 < nRatings - 1 \<and> length t2c1 < 2 * nRatings - 2 then Inl IndexError
         else Inr
           (map (\<lambda>i. fdiv (fsub (Fin 1) (fncdf (t2c1 ! ((nRatings - 1) + i)) S1mu (Fin S1sd)))
                        I_area_rS2) [0..<nRatings - 1],
            map (\<lambda>i. fdiv (fsub (Fin 1) (fncdf (t2c1 ! ((nRatings - 1) + i)) S2mu (Fin S2sd)))
                        C_area_rS2) [0..<nRatings - 1],
            map (\<lambda>i. fdiv (fncdf (t2c1 ! ((nRatings - 1) - (i + 1))) S2mu (Fin S2sd))
                        I_area_rS1) [0..<nRatings - 1],
            map (\<lambda>i. fdiv (fncdf (t2c1 ! ((nRatings - 1) - (i + 1))) S1mu (Fin S1sd))
                        C_area_rS1) [0..<nRatings - 1]))"

text \<open>The dictionary \<^verbatim>\<open>fit['S1units']\<close> and the dictionary \<^verbatim>\<open>fit\<close> that is returned.\<close>

record S1units =
  S1units_d1 :: npfloat
  S1units_meta_d1 :: npfloat
  S1units_s :: real
  S1units_meta_c1 :: npfloat
  S1units_t2c1_rS1 :: "npfloat list"
  S1units_t2c1_rS2 :: "npfloat list"

record FitResult =
  fit_da :: npfloat
  fit_s :: real
  fit_meta_da :: npfloat
  fit_M_diff :: npfloat
  fit_M_ratio :: npfloat
  fit_meta_ca :: npfloat
  fit_t2ca_rS1 :: "npfloat list"
  fit_t2ca_rS2 :: "npfloat list"
  fit_S1units :: S1units
  fit_logL :: npfloat
  fit_est_HR2_rS1 :: "npfloat list"
  fit_obs_HR2_rS1 :: "npfloat list"
  fit_est_FAR2_rS1 :: "npfloat list"
  fit_obs_FAR2_rS1 :: "npfloat list"
  fit_est_HR2_rS2 :: "npfloat list"
  fit_obs_HR2_rS2 :: "real list"
  fit_est_FAR2_rS2 :: "npfloat list"
  fit_obs_FAR2_rS2 :: "real list"

text \<open>
  SciPy's \<^verbatim>\<open>minimize\<close> is not part of the repository. It is a parameter of the model: a
  function of the objective, the initial guess, the linear constraint \<open>(A, lb, ub)\<close> and
  the bounds \<open>(LB, UB)\<close> that returns \<open>(results.x, results.fun)\<close> or raises.
\<close>

type_synonym minimizer =
  "(npfloat list \<Rightarrow> py_error + npfloat) \<Rightarrow> npfloat list
     \<Rightarrow> real list list \<times> npfloat list \<times> real list \<Rightarrow> real list \<times> real list
     \<Rightarrow> py_error + (npfloat list \<times> npfloat)"

text \<open>
  The packaging of the optimiser's result: everything \<^verbatim>\<open>fit_meta_d_MLE\<close> does after
  \<^verbatim>\<open>minimize\<close> has returned \<open>(x, fun)\<close>.
\<close>

definition package_fit ::
  "real list \<Rightarrow> real list \<Rightarrow> nat \<Rightarrow> real \<Rightarrow> cdf \<Rightarrow> npfloat \<Rightarrow> npfloat
     \<Rightarrow> npfloat list \<times> npfloat \<Rightarrow> py_error + FitResult" where
  "package_fit nR_S1 nR_S2 nRatings s fncdf d1 t1c1 results =
     (case results of (x, fn) \<Rightarrow>
      case x of
        [] \<Rightarrow> Inl IndexError
      | meta_d1 # rest \<Rightarrow>
          let t2c1 = map (\<lambda>c. fadd c (constant_criterion meta_d1 t1c1 d1)) rest;
              logL = fneg fn
          in bindE (observed_rates nR_S1 nR_S2 nRatings)
               (\<lambda>(obs_FAR2_rS2, obs_HR2_rS2, obs_FAR2_rS1, obs_HR2_rS1).
             let S1mu = fdiv (fneg meta_d1) (Fin 2);
                 S1sd = 1;
                 S2mu = fdiv meta_d1 (Fin 2)
             in bindE (py_div S1sd s) (\<lambda>S2sd.
                let mt1c1 = constant_criterion meta_d1 t1c1 d1
                in bindE (estimated_rates fncdf nRatings t2c1 mt1c1 S1mu S1sd S2mu S2sd)
                     (\<lambda>(est_FAR2_rS2, est_HR2_rS2, est_FAR2_rS1, est_HR2_rS1).
                   let da = fmul (fmul (fsqrt (Fin (2 / (1 + s\<^sup>2)))) (Fin s)) d1;
                       meta_da = fmul (fmul (fsqrt (Fin (2 / (1 + s\<^sup>2)))) (Fin s)) meta_d1;
                       M_diff = fsub meta_da da;
                       M_ratio = fdiv meta_da da;
                       rms = fdiv (fmul (fsqrt (Fin 2)) (Fin s)) (fsqrt (Fin (1 + s\<^sup>2)));
                       meta_ca = fmul rms mt1c1;
                       t2ca = map (\<lambda>c. fmul rms c) t2c1
                   in Inr \<lparr> fit_da = da, fit_s = s, fit_meta_da = meta_da,
                            fit_M_diff = M_diff, fit_M_ratio = M_ratio, fit_meta_ca = meta_ca,
                            fit_t2ca_rS1 = py_slice t2ca 0 (int nRatings - 1),
                            fit_t2ca_rS2 = py_slice_from t2ca (int nRatings - 1),
                            fit_S1units =
                              \<lparr> S1units_d1 = d1, S1units_meta_d1 = meta_d1, S1units_s = s,
                                S1units_meta_c1 = mt1c1,
                                S1units_t2c1_rS1 = py_slice t2c1 0 (int nRatings - 1),
                                S1units_t2c1_rS2 = py_slice_from t2c1 (int nRatings - 1) \<rparr>,
                            fit_logL = logL,
                            fit_est_HR2_rS1 = est_HR2_rS1, fit_obs_HR2_rS1 = obs_HR2_rS1,
                            fit_est_FAR2_rS1 = est_FAR2_rS1, fit_obs_FAR2_rS1 = obs_FAR2_rS1,
                            fit_est_HR2_rS2 = est_HR2_rS2, fit_obs_HR2_rS2 = obs_HR2_rS2,
                            fit_est_FAR2_rS2 = est_FAR2_rS2,
                            fit_obs_FAR2_rS2 = obs_FAR2_rS2 \<rparr>))))"

text \<open>\<^verbatim>\<open>fit_meta_d_MLE\<close>, for count vectors that are Python lists of Python numbers.\<close>

definition fit_meta_d_MLE ::
  "minimizer \<Rightarrow> real list \<Rightarrow> real list \<Rightarrow> real \<Rightarrow> cdf \<Rightarrow> invcdf \<Rightarrow> py_error + FitResult" where
  "fit_meta_d_MLE minimize nR_S1 nR_S2 s fncdf fninv =
     (if length nR_S1 mod 2 \<noteq> 0 then Inl TypeError
      else if length nR_S1 \<noteq> length nR_S2 then Inl TypeError
      else
        let nRatings = length nR_S1 div 2;
            nCriteria = 2 * int nRatings - 1;
            constraint = linear_constraint nCriteria
        in bindE (bounds nCriteria) (\<lambda>box.
           bindE (initial_guess s fninv nR_S1 nR_S2 nRatings) (\<lambda>(guess, d1, t1c1).
             let inputObj = (nR_S1, nR_S2, nRatings, d1, t1c1, s, fncdf, fninv)
             in bindE (minimize (\<lambda>parameters. fit_meta_d_logL parameters inputObj)
                         guess constraint box)
                  (package_fit nR_S1 nR_S2 nRatings s fncdf d1 t1c1))))"

section \<open>Distribution functions\<close>

text \<open>
  What it means for \<^verbatim>\<open>fncdf\<close>, at a fixed mean and standard deviation, to be a cumulative
  distribution function: finite values that increase with the argument, with limits 0 and
  1, and the values 0 and 1 at the two infinities (where the likelihood evaluates it).
\<close>

definition is_cdf :: "cdf \<Rightarrow> npfloat \<Rightarrow> npfloat \<Rightarrow> bool" where
  "is_cdf fncdf mu sd \<longleftrightarrow>
     (\<exists>f. (\<forall>x. fncdf (Fin x) mu sd = Fin (f x)) \<and> mono f
          \<and> (f \<longlongrightarrow> 0) at_bot \<and> (f \<longlongrightarrow> 1) at_top)
     \<and> fncdf NInf mu sd = Fin 0 \<and> fncdf PInf mu sd = Fin 1"

text \<open>
  Two distributions that can be supplied in place of the normal one. The uniform
  distribution on \<open>[loc, loc + scale]\<close> (\<^verbatim>\<open>scipy.stats.uniform.cdf\<close>) has bounded support.
\<close>

fun uniform_cdf :: cdf where
  "uniform_cdf (Fin x) (Fin loc) (Fin scale) =
     (if scale \<le> 0 then NaN else Fin (max 0 (min 1 ((x - loc) / scale))))"
| "uniform_cdf NInf (Fin loc) (Fin scale) = (if scale \<le> 0 then NaN else Fin 0)"
| "uniform_cdf PInf (Fin loc) (Fin scale) = (if scale \<le> 0 then NaN else Fin 1)"
| "uniform_cdf _ _ _ = NaN"

text \<open>
  The quantile function of the logistic distribution (\<^verbatim>\<open>scipy.stats.logistic.ppf\<close>): as
  for the normal distribution, it is infinite at 0 and at 1.
\<close>

fun logistic_ppf :: invcdf where
  "logistic_ppf (Fin p) =
     (if p < 0 \<or> 1 < p then NaN
      else if p = 0 then NInf
      else if p = 1 then PInf
      else Fin (ln (p / (1 - p))))"
| "logistic_ppf _ = NaN"

text \<open>
  SciPy's \<^verbatim>\<open>norm.cdf\<close> and \<^verbatim>\<open>norm.ppf\<close>, the defaults of \<^verbatim>\<open>fncdf\<close> and \<^verbatim>\<open>fninv\<close>, are not
  part of the repository. They are the distribution function of the standard normal
  distribution and its inverse. The distribution function is written here as its power
  series around 0,
  \<open>1/2 + (x - x^3/6 + x^5/40 - \<dots>) / sqrt (2 pi)\<close>, whose derivative is the normal density
  (lemma \<open>DERIV_std_normal_cdf\<close> below); \<open>phi_coeff n\<close> is the coefficient of \<open>x^(n+1)\<close>.
\<close>

definition phi_coeff :: "nat \<Rightarrow> real" where
  "phi_coeff n = (if even n then (- 1 / 2) ^ (n div 2) / fact (n div 2) else 0) / real (Suc n)"

definition phi_series :: "real \<Rightarrow> real" where
  "phi_series x = (\<Sum>n. phi_coeff n * x ^ Suc n)"

definition std_normal_cdf :: "real \<Rightarrow> real" where
  "std_normal_cdf x = 1 / 2 + phi_series x / sqrt (2 * pi)"






section \<open>Properties of trials2counts\<close>

text \<open>
  C5. The tabulation scenario of the specification. The code tallies the eight trials into
  \<open>nR_S1 = [0,0,0,1,0,0,1,1]\<close> and \<open>nR_S2 = [1,1,0,0,1,2,0,0]\<close>: three trials show
  stimulus 0 and five show stimulus 1.
\<close>

theorem trials2counts_scenario:
  "trials2counts [0, 1, 0, 0, 1, 1, 1, 1] [0, 1, 1, 1, 0, 0, 1, 1] [1, 2, 3, 4, 4, 3, 2, 1] 4
       False None
     = Inr ([0, 0, 0, 1, 0, 0, 1, 1], [1, 1, 0, 0, 1, 2, 0, 0])"
  by (simp add: trials2counts_def in_range_def bindE_def py_div_def upto.simps)

text \<open>
  C5, as the specification states it: the vectors \<open>[1,0,0,1,0,0,1,1]\<close> and
  \<open>[0,0,1,1,0,1,0,1]\<close> are not what the code returns.
\<close>

theorem trials2counts_scenario_counterexample:
  "trials2counts [0, 1, 0, 0, 1, 1, 1, 1] [0, 1, 1, 1, 0, 0, 1, 1] [1, 2, 3, 4, 4, 3, 2, 1] 4
       False None
     \<noteq> Inr ([1, 0, 0, 1, 0, 0, 1, 1], [0, 0, 1, 1, 0, 1, 0, 1])"
  by (simp add: trials2counts_def in_range_def bindE_def py_div_def upto.simps)

text \<open>
  The re-zipped lists of kept trials are the kept trials, and the inner loop counts the
  trials of one cell.
\<close>

lemma zip_unzip3:
  "zip (map fst xs) (zip (map (fst \<circ> snd) xs) (map (snd \<circ> snd) xs)) = xs"
  by (induction xs) auto

lemma tally_count:
  "tally rp0 r ts (a, b) =
     (a + length (filter (\<lambda>t. fst t = 0 \<and> fst (snd t) = rp0 \<and> snd (snd t) = real_of_int r) ts),
      b + length (filter (\<lambda>t. fst t = 1 \<and> fst (snd t) = rp0 \<and> snd (snd t) = real_of_int r) ts))"
  by (induction ts arbitrary: a b) auto

text \<open>
  Over the ratings \<open>1, \<dots>, n\<close> of the outer loops, a trial's rating equals exactly one of
  them when it is an integer between 1 and \<open>n\<close>, and none otherwise.
\<close>

lemma sum_upto_delta_int:
  "(\<Sum>r\<leftarrow>[1..n]. if k = r then 1 else 0) = (if 1 \<le> k \<and> k \<le> n then (1::nat) else 0)"
proof -
  have "(\<Sum>r\<leftarrow>[1..n]. if k = r then 1 else 0) = (\<Sum>r\<in>{1..n}. if k = r then (1::nat) else 0)"
    by (simp add: sum_list_distinct_conv_sum_set)
  also have "\<dots> = (if k \<in> {1..n} then 1 else 0)"
    by (simp only: sum.delta' finite_atLeastAtMost_int)
  finally show ?thesis by simp
qed

lemma sum_upto_delta:
  "(\<Sum>r\<leftarrow>[1..n]. if rt = real_of_int r then 1 else 0)
     = (if rt \<in> \<int> \<and> 1 \<le> rt \<and> rt \<le> real_of_int n then (1::nat) else 0)"
proof (cases "rt \<in> \<int>")
  case True
  then obtain k where k: "rt = real_of_int k" by (auto elim: Ints_cases)
  show ?thesis
    using sum_upto_delta_int [of k n] by (simp add: k)
next
  case False
  then have "rt \<noteq> real_of_int r" for r by auto
  then show ?thesis using False by simp
qed

lemma sum_cells:
  "(\<Sum>r\<leftarrow>[1..n]. length (filter (\<lambda>t. fst t = s0 \<and> fst (snd t) = rp0
                                      \<and> snd (snd t) = real_of_int r) ts))
   = length (filter (\<lambda>t. fst t = s0 \<and> fst (snd t) = rp0 \<and> snd (snd t) \<in> \<int>
                          \<and> 1 \<le> snd (snd t) \<and> snd (snd t) \<le> real_of_int n) ts)"
proof (induction ts)
  case Nil
  show ?case by simp
next
  case (Cons t ts)
  let ?c = "\<lambda>r ts. length (filter (\<lambda>t. fst t = s0 \<and> fst (snd t) = rp0
                                      \<and> snd (snd t) = real_of_int r) ts)"
  let ?h = "\<lambda>r. if fst t = s0 \<and> fst (snd t) = rp0
                 then (if snd (snd t) = real_of_int r then 1 else 0) else (0::nat)"
  have "(\<Sum>r\<leftarrow>[1..n]. ?c r (t # ts)) = (\<Sum>r\<leftarrow>[1..n]. ?h r + ?c r ts)"
    by (rule arg_cong [where f = sum_list]) (rule map_cong, auto)
  also have "\<dots> = (\<Sum>r\<leftarrow>[1..n]. ?h r) + (\<Sum>r\<leftarrow>[1..n]. ?c r ts)"
    by (simp add: sum_list_addf)
  also have "(\<Sum>r\<leftarrow>[1..n]. ?h r)
       = (if fst t = s0 \<and> fst (snd t) = rp0 \<and> snd (snd t) \<in> \<int>
             \<and> 1 \<le> snd (snd t) \<and> snd (snd t) \<le> real_of_int n then (1::nat) else 0)"
    using sum_upto_delta [of "snd (snd t)" n] by (cases "fst t = s0 \<and> fst (snd t) = rp0") auto
  finally show ?case using Cons.IH by simp
qed

lemma kept_split:
  "length (filter (\<lambda>t. fst t = s0 \<and> fst (snd t) = 0 \<and> snd (snd t) \<in> \<int>
                        \<and> 1 \<le> snd (snd t) \<and> snd (snd t) \<le> real_of_int n)
             (filter (in_range n) xs))
   + length (filter (\<lambda>t. fst t = s0 \<and> fst (snd t) = 1 \<and> snd (snd t) \<in> \<int>
                        \<and> 1 \<le> snd (snd t) \<and> snd (snd t) \<le> real_of_int n)
             (filter (in_range n) xs))
   = length (filter (\<lambda>t. in_range n t \<and> fst t = s0 \<and> snd (snd t) \<in> \<int>) xs)"
  by (induction xs) (auto simp: in_range_def)

lemma sum_list_real_nat: "sum_list (map (real \<circ> f) xs) = real (sum_list (map f xs))"
  by (induction xs) auto

text \<open>
  C9, amended. Without padding, whenever \<^verbatim>\<open>trials2counts\<close> returns, the entries of \<open>nR_S1\<close>
  add up to the number of in-range trials with \<open>stimID = 0\<close> whose rating is an integer, and
  those of \<open>nR_S2\<close> to the number of in-range trials with \<open>stimID = 1\<close> whose rating is an
  integer. A trial with a field out of range is in neither, and so is a trial whose rating
  is in range but not an integer: it passes the filter and equals no rating of the loops.
\<close>

theorem trials2counts_conserves:
  assumes "trials2counts stimID response rating nRatings False padAmount = Inr (nR_S1, nR_S2)"
  shows "sum_list nR_S1 =
           real (length (filter (\<lambda>t. in_range nRatings t \<and> fst t = 0 \<and> snd (snd t) \<in> \<int>)
                   (zip stimID (zip response rating))))
       \<and> sum_list nR_S2 =
           real (length (filter (\<lambda>t. in_range nRatings t \<and> fst t = 1 \<and> snd (snd t) \<in> \<int>)
                   (zip stimID (zip response rating))))"
proof -
  define kept where "kept = filter (in_range nRatings) (zip stimID (zip response rating))"
  define c where "c s0 rp0 r = length (filter (\<lambda>t. fst t = s0 \<and> fst (snd t) = rp0
                                                  \<and> snd (snd t) = real_of_int r) kept)"
    for s0 rp0 :: real and r :: int
  have t: "tally rp0 r kept (0, 0) = (c 0 rp0 r, c 1 rp0 r)" for rp0 r
    by (simp add: tally_count c_def)
  have z: "zip (map fst kept) (zip (map (fst \<circ> snd) kept) (map (snd \<circ> snd) kept)) = kept"
    by (rule zip_unzip3)
  from assms have
    "nR_S1 = map (real \<circ> fst) (map (\<lambda>r. tally 0 r kept (0, 0)) (rev [1..nRatings]))
           @ map (real \<circ> fst) (map (\<lambda>r. tally 1 r kept (0, 0)) [1..nRatings])" and
    "nR_S2 = map (real \<circ> snd) (map (\<lambda>r. tally 0 r kept (0, 0)) (rev [1..nRatings]))
           @ map (real \<circ> snd) (map (\<lambda>r. tally 1 r kept (0, 0)) [1..nRatings])"
    unfolding trials2counts_def Let_def kept_def [symmetric] z bindE_def
    by (simp_all split: if_splits sum.splits)
  then have
    S1: "nR_S1 = map (real \<circ> c 0 0) (rev [1..nRatings]) @ map (real \<circ> c 0 1) [1..nRatings]" and
    S2: "nR_S2 = map (real \<circ> c 1 0) (rev [1..nRatings]) @ map (real \<circ> c 1 1) [1..nRatings]"
    by (simp_all add: t comp_def)
  have tot: "sum_list (map (c s0 0) [1..nRatings]) + sum_list (map (c s0 1) [1..nRatings])
      = length (filter (\<lambda>t. in_range nRatings t \<and> fst t = s0 \<and> snd (snd t) \<in> \<int>)
                  (zip stimID (zip response rating)))"
    for s0
    unfolding c_def sum_cells kept_def by (rule kept_split)
  have "sum_list nR_S1 = real (sum_list (map (c 0 0) [1..nRatings]) + sum_list (map (c 0 1) [1..nRatings]))"
    unfolding S1 by (simp add: sum_list_real_nat rev_map [symmetric] sum_list_rev del: map_map)
  moreover have "sum_list nR_S2 = real (sum_list (map (c 1 0) [1..nRatings]) + sum_list (map (c 1 1) [1..nRatings]))"
    unfolding S2 by (simp add: sum_list_real_nat rev_map [symmetric] sum_list_rev del: map_map)
  ultimately show ?thesis by (simp only: tot)
qed

text \<open>
  C9, amended, at six trials: one with an unknown stimulus, one with a rating out of range
  and one with the rating \<open>3/2\<close>, which is in range and counted in no cell.
\<close>

theorem trials2counts_conserves_witness:
  "trials2counts [0, 1, 0, 7, 1, 0] [0, 1, 1, 0, 0, 0] [1, 2, 5, 1, 2, 3 / 2] 2 False None
     = Inr ([0, 1, 0, 0], [1, 0, 0, 1])
   \<and> sum_list [0, 1, 0, 0::real] =
       real (length (filter (\<lambda>t. in_range 2 t \<and> fst t = 0 \<and> snd (snd t) \<in> \<int>)
         (zip [0, 1, 0, 7, 1, 0] (zip [0, 1, 1, 0, 0, 0] [1, 2, 5, 1, 2, 3 / 2]))))
   \<and> sum_list [1, 0, 0, 1::real] =
       real (length (filter (\<lambda>t. in_range 2 t \<and> fst t = 1 \<and> snd (snd t) \<in> \<int>)
         (zip [0, 1, 0, 7, 1, 0] (zip [0, 1, 1, 0, 0, 0] [1, 2, 5, 1, 2, 3 / 2]))))"
proof -
  have e: "trials2counts [0, 1, 0, 7, 1, 0] [0, 1, 1, 0, 0, 0] [1, 2, 5, 1, 2, 3 / 2] 2 False None
     = Inr ([0, 1, 0, 0], [1, 0, 0, 1])"
    by (simp add: trials2counts_def in_range_def bindE_def py_div_def upto.simps)
  show ?thesis
    using trials2counts_conserves [OF e] e by blast
qed

text \<open>
  C9, as the specification states it, fails for a rating that is not an integer: the single
  trial with stimulus 0, response 0 and rating \<open>3/2\<close> is in range for two ratings, and all
  cells of \<open>nR_S1\<close> are 0.
\<close>

theorem trials2counts_conserves_counterexample:
  "trials2counts [0] [0] [3 / 2] 2 False None = Inr ([0, 0, 0, 0], [0, 0, 0, 0])
   \<and> in_range 2 (0, 0, 3 / 2)
   \<and> sum_list [0, 0, 0, 0::real]
       \<noteq> real (length (filter (\<lambda>t. in_range 2 t \<and> fst t = 0) (zip [0] (zip [0] [3 / 2]))))"
  by (simp add: trials2counts_def in_range_def bindE_def py_div_def upto.simps)

lemma zip3_take:
  assumes "m = min (length xs) (min (length ys) (length zs))"
  shows "zip (take m xs) (zip (take m ys) (take m zs)) = zip xs (zip ys zs)"
proof -
  have "zip (take m xs) (zip (take m ys) (take m zs)) = take m (zip xs (zip ys zs))"
    by (simp add: take_zip)
  also have "\<dots> = zip xs (zip ys zs)"
    using assms by simp
  finally show ?thesis .
qed

text \<open>
  C10, amended. The length check raises exactly when \<open>stimID\<close> and \<open>response\<close> differ in
  length while \<open>stimID\<close> and \<open>rating\<close> agree. In every other case, provided
  \<open>nRatings \<noteq> 0\<close> or a \<open>padAmount\<close> is given, the function returns, and it returns what it
  returns on the three lists cut to the length of the shortest.
\<close>

theorem trials2counts_length_check:
  "(trials2counts stimID response rating nRatings padCells padAmount = Inl TypeError
      \<longleftrightarrow> length stimID \<noteq> length response \<and> length stimID = length rating)
   \<and> (\<not> (length stimID \<noteq> length response \<and> length stimID = length rating)
        \<and> (nRatings \<noteq> 0 \<or> padAmount \<noteq> None)
      \<longrightarrow> (\<exists>nR_S1 nR_S2.
             trials2counts stimID response rating nRatings padCells padAmount
               = Inr (nR_S1, nR_S2))
          \<and> trials2counts stimID response rating nRatings padCells padAmount
              = trials2counts
                  (take (min (length stimID) (min (length response) (length rating))) stimID)
                  (take (min (length stimID) (min (length response) (length rating))) response)
                  (take (min (length stimID) (min (length response) (length rating))) rating)
                  nRatings padCells padAmount)"
proof -
  define m where "m = min (length stimID) (min (length response) (length rating))"
  have z: "zip (take m stimID) (zip (take m response) (take m rating))
             = zip stimID (zip response rating)"
    by (rule zip3_take) (simp add: m_def)
  have l: "length (take m stimID) = m" "length (take m response) = m" "length (take m rating) = m"
    by (simp_all add: m_def)
  have 1: "trials2counts stimID response rating nRatings padCells padAmount = Inl TypeError
      \<longleftrightarrow> length stimID \<noteq> length response \<and> length stimID = length rating"
    by (cases padAmount) (auto simp: trials2counts_def bindE_def py_div_def Let_def)
  have 2: "\<exists>nR_S1 nR_S2.
             trials2counts stimID response rating nRatings padCells padAmount = Inr (nR_S1, nR_S2)"
    if "\<not> (length stimID \<noteq> length response \<and> length stimID = length rating)"
      "nRatings \<noteq> 0 \<or> padAmount \<noteq> None"
    using that by (cases padAmount) (auto simp: trials2counts_def bindE_def py_div_def Let_def)
  have 3: "trials2counts stimID response rating nRatings padCells padAmount
              = trials2counts (take m stimID) (take m response) (take m rating)
                  nRatings padCells padAmount"
    if "\<not> (length stimID \<noteq> length response \<and> length stimID = length rating)"
  proof -
    have c: "(\<not> length stimID = length response \<and> length stimID = length rating) = False"
      using that by blast
    show ?thesis unfolding trials2counts_def z l c by simp
  qed
  show ?thesis
    unfolding m_def [symmetric] using 1 2 3 by blast
qed

text \<open>
  C10, amended, at lists of lengths 3, 2 and 4.
\<close>

theorem trials2counts_length_check_witness:
  "trials2counts [0, 1, 0] [0, 1] [1, 1, 2, 2] 2 False None \<noteq> Inl TypeError
   \<and> (\<exists>nR_S1 nR_S2. trials2counts [0, 1, 0] [0, 1] [1, 1, 2, 2] 2 False None = Inr (nR_S1, nR_S2))
   \<and> trials2counts [0, 1, 0] [0, 1] [1, 1, 2, 2] 2 False None
       = trials2counts [0, 1] [0, 1] [1, 1] 2 False None"
proof -
  have h: "\<not> (length [0, 1, 0::real] \<noteq> length [0, 1::real]
              \<and> length [0, 1, 0::real] = length [1, 1, 2, 2::real])"
    "(2::int) \<noteq> 0 \<or> (None::real option) \<noteq> None"
    by simp_all
  have tk:
    "take (min (length [0, 1, 0::real]) (min (length [0, 1::real]) (length [1, 1, 2, 2::real])))
       [0, 1, 0::real] = [0, 1]"
    "take (min (length [0, 1, 0::real]) (min (length [0, 1::real]) (length [1, 1, 2, 2::real])))
       [0, 1::real] = [0, 1]"
    "take (min (length [0, 1, 0::real]) (min (length [0, 1::real]) (length [1, 1, 2, 2::real])))
       [1, 1, 2, 2::real] = [1, 1]"
    by simp_all
  show ?thesis
    using trials2counts_length_check [of "[0, 1, 0]" "[0, 1]" "[1, 1, 2, 2]" 2 False None] h
    unfolding tk by blast
qed

text \<open>
  C10, as the specification states it, fails: with \<open>rating\<close> shorter than \<open>stimID\<close>, the length
  check passes, and with \<open>nRatings = 0\<close> the default \<open>padAmount\<close> divides by zero.
\<close>

theorem trials2counts_no_error_counterexample:
  "length [0::real] \<noteq> length ([]::real list)
   \<and> trials2counts [0] [0] [] 0 False None = Inl ZeroDivisionError"
  by (simp add: trials2counts_def bindE_def py_div_def)

section \<open>Properties of dprime\<close>

text \<open>
  C6. At 10 hits and no miss the hit rate is 1, and the replacement \<open>1 - half_hit\<close> with
  \<open>half_hit = 0.5 * (hits + misses)\<close> is \<open>-4\<close>: the inverse CDF is applied outside the unit
  interval.
\<close>

theorem dprime_ceiling_outside_unit_interval:
  "dprime_rates 10 0 1 9 = Inr (- 4, 1 / 10)
   \<and> dprime ppf 10 0 1 9 = Inr (fsub (ppf (Fin (- 4))) (ppf (Fin (1 / 10))))"
  by (simp add: dprime_def dprime_rates_def bindE_def py_div_def)

text \<open>
  At 2 hits and no miss the first replacement gives 0 and the second one then gives 1, the
  rate that was to be avoided. With rates strictly between 0 and 1 nothing is replaced.
\<close>

lemma dprime_ceiling_back_to_one:
  "dprime ppf 2 0 1 9 = Inr (fsub (ppf (Fin 1)) (ppf (Fin (1 / 10))))"
  by (simp add: dprime_def dprime_rates_def bindE_def py_div_def)

lemma dprime_scenario:
  "dprime ppf 8 2 1 9 = Inr (fsub (ppf (Fin (4 / 5))) (ppf (Fin (1 / 10))))"
  by (simp add: dprime_def dprime_rates_def bindE_def py_div_def)

section \<open>Properties of fit\_meta\_d\_logL\<close>

lemma safeguard_finite:
  "isfinite (fneg (if isinf l \<or> isnan l then Fin c else l))"
  by (cases l) auto

lemma bindE_Inr_iff: "bindE m f = Inr v \<longleftrightarrow> (\<exists>a. m = Inr a \<and> f a = Inr v)"
  by (cases m) (auto simp: bindE_def)

lemma fit_meta_d_logL_Inr_finite:
  assumes "fit_meta_d_logL parameters inputObj = Inr v"
  shows "isfinite v"
proof -
  obtain nR_S1 nR_S2 nRatings d1 t1c1 s fncdf fninv
    where obj: "inputObj = (nR_S1, nR_S2, nRatings, d1, t1c1, s, fncdf, fninv)"
    by (cases inputObj) auto
  from assms obtain l c where "v = fneg (if isinf l \<or> isnan l then Fin c else l)"
    unfolding fit_meta_d_logL_def obj
    by (auto simp: bindE_Inr_iff Let_def)
  then show ?thesis by (simp only: safeguard_finite)
qed

lemma length_t2c1x:
  "0 < K \<Longrightarrow> length (t2c1x K t2c1) = length t2c1 + 3"
  by (auto simp: t2c1x_def py_slice_def py_slice_from_def slice_bound_def)

lemma fit_meta_d_logL_returns:
  assumes "parameters \<noteq> []" "2 * K \<le> length parameters + 1"
    "2 * K \<le> length nR_S1" "2 * K \<le> length nR_S2" "s \<noteq> 0"
  shows "\<exists>v. fit_meta_d_logL parameters (nR_S1, nR_S2, K, d1, t1c1, s, fncdf, fninv) = Inr v"
proof -
  obtain m t where p: "parameters = m # t" using assms(1) by (cases parameters) auto
  have len: "K = 0 \<or> \<not> length (t2c1x K t) < Suc (2 * K)"
    using assms(2) by (cases "K = 0") (simp_all add: length_t2c1x p)
  show ?thesis
    using assms(3-5) len
    by (simp add: fit_meta_d_logL_def sdt_means_def type2_counts_def type2_probs_def p
          bindE_def py_div_def Let_def)
qed

lemma fit_meta_d_logL_value:
  assumes "fit_meta_d_logL parameters (nR_S1, nR_S2, K, d1, t1c1, s, fncdf, fninv) = Inr v"
  shows "\<exists>counts probs.
           type2_counts (nR_S1, nR_S2, K, d1, t1c1, s, fncdf, fninv) = Inr counts
         \<and> model_probs parameters (nR_S1, nR_S2, K, d1, t1c1, s, fncdf, fninv) = Inr probs
         \<and> v = fneg (if isinf (logL_sum K counts probs) \<or> isnan (logL_sum K counts probs)
                     then Fin (- (10 ^ 300)) else logL_sum K counts probs)"
  using assms
  by (clarsimp simp: fit_meta_d_logL_def model_probs_def bindE_Inr_iff Let_def
      simp del: power_numeral split del: if_split)

lemma safeguard_cases:
  "(isinf l \<or> isnan l \<longrightarrow> fneg (if isinf l \<or> isnan l then Fin (- c) else l) = Fin c)
   \<and> (\<forall>r. l = Fin r \<longrightarrow> fneg (if isinf l \<or> isnan l then Fin (- c) else l) = Fin (- r))"
  by (cases l) auto

text \<open>
  C3. Whatever \<^verbatim>\<open>fit_meta_d_logL\<close> returns is a finite number, and it is the value the code
  computes: with the log likelihood \<open>logL\<close> summed from the type 2 counts and the model
  probabilities, an infinite or not-a-number \<open>logL\<close> is replaced by \<open>-1e+300\<close> before the
  sign is changed, so that \<open>1e+300\<close> is returned, and a finite \<open>logL\<close> is returned as
  \<open>-logL\<close>. And the function does return, for any counts, criteria and distribution
  functions, when the count vectors hold at least \<open>2 * nRatings\<close> entries, the parameter
  vector at least \<open>2 * nRatings - 1\<close> (and one), and \<open>s\<close> is not zero.
\<close>

theorem fit_meta_d_logL_safeguard:
  "(\<forall>v. fit_meta_d_logL parameters (nR_S1, nR_S2, K, d1, t1c1, s, fncdf, fninv) = Inr v \<longrightarrow>
      isfinite v
      \<and> (\<exists>counts probs.
            type2_counts (nR_S1, nR_S2, K, d1, t1c1, s, fncdf, fninv) = Inr counts
          \<and> model_probs parameters (nR_S1, nR_S2, K, d1, t1c1, s, fncdf, fninv) = Inr probs
          \<and> v = fneg (if isinf (logL_sum K counts probs) \<or> isnan (logL_sum K counts probs)
                      then Fin (- (10 ^ 300)) else logL_sum K counts probs)
          \<and> (isinf (logL_sum K counts probs) \<or> isnan (logL_sum K counts probs)
               \<longrightarrow> v = Fin (10 ^ 300))
          \<and> (\<forall>l. logL_sum K counts probs = Fin l \<longrightarrow> v = Fin (- l))))
   \<and> (parameters \<noteq> [] \<and> 2 * K \<le> length parameters + 1 \<and> 2 * K \<le> length nR_S1
        \<and> 2 * K \<le> length nR_S2 \<and> s \<noteq> 0
      \<longrightarrow> (\<exists>r. fit_meta_d_logL parameters (nR_S1, nR_S2, K, d1, t1c1, s, fncdf, fninv)
                  = Inr (Fin r)))"
proof (intro conjI allI impI)
  fix v assume v: "fit_meta_d_logL parameters (nR_S1, nR_S2, K, d1, t1c1, s, fncdf, fninv) = Inr v"
  then show "isfinite v" by (rule fit_meta_d_logL_Inr_finite)
  from fit_meta_d_logL_value [OF v] obtain counts probs where
    c: "type2_counts (nR_S1, nR_S2, K, d1, t1c1, s, fncdf, fninv) = Inr counts"
    and p: "model_probs parameters (nR_S1, nR_S2, K, d1, t1c1, s, fncdf, fninv) = Inr probs"
    and e: "v = fneg (if isinf (logL_sum K counts probs) \<or> isnan (logL_sum K counts probs)
                     then Fin (- (10 ^ 300)) else logL_sum K counts probs)"
    by blast
  show "\<exists>counts probs.
            type2_counts (nR_S1, nR_S2, K, d1, t1c1, s, fncdf, fninv) = Inr counts
          \<and> model_probs parameters (nR_S1, nR_S2, K, d1, t1c1, s, fncdf, fninv) = Inr probs
          \<and> v = fneg (if isinf (logL_sum K counts probs) \<or> isnan (logL_sum K counts probs)
                      then Fin (- (10 ^ 300)) else logL_sum K counts probs)
          \<and> (isinf (logL_sum K counts probs) \<or> isnan (logL_sum K counts probs)
               \<longrightarrow> v = Fin (10 ^ 300))
          \<and> (\<forall>l. logL_sum K counts probs = Fin l \<longrightarrow> v = Fin (- l))"
    using c p e safeguard_cases [of "logL_sum K counts probs" "10 ^ 300"] by blast
next
  assume a: "parameters \<noteq> [] \<and> 2 * K \<le> length parameters + 1 \<and> 2 * K \<le> length nR_S1
        \<and> 2 * K \<le> length nR_S2 \<and> s \<noteq> 0"
  then obtain v where v: "fit_meta_d_logL parameters (nR_S1, nR_S2, K, d1, t1c1, s, fncdf, fninv) = Inr v"
    using fit_meta_d_logL_returns by blast
  then have "isfinite v" by (rule fit_meta_d_logL_Inr_finite)
  then obtain r where "v = Fin r" by (cases v) auto
  with v show "\<exists>r. fit_meta_d_logL parameters (nR_S1, nR_S2, K, d1, t1c1, s, fncdf, fninv) = Inr (Fin r)"
    by blast
qed

text \<open>
  Two evaluations with the uniform distribution. In the first a bin of probability 0 holds
  3 trials and a whole branch has area 0: the log likelihood is not-a-number. In the second
  every bin with trials has probability \<open>1/2\<close>: the log likelihood is \<open>4 ln (1/2)\<close>.
\<close>

lemma logL_zero_bin:
  "type2_counts ([3, 0, 2, 1], [1, 2, 0, 3], 2, Fin 1, Fin 0, 1, uniform_cdf, logistic_ppf)
     = Inr ([3, 0], [1, 2], [0, 3], [2, 1])"
  "model_probs [Fin 1, Fin (- 1), Fin 1]
       ([3, 0, 2, 1], [1, 2, 0, 3], 2, Fin 1, Fin 0, 1, uniform_cdf, logistic_ppf)
     = Inr ([Fin 0, Fin 1], [NaN, NaN], [Fin (1 / 2), Fin (1 / 2)], [Fin 1, Fin 0])"
  "logL_sum 2 ([3, 0], [1, 2], [0, 3], [2, 1])
     ([Fin 0, Fin 1], [NaN, NaN], [Fin (1 / 2), Fin (1 / 2)], [Fin 1, Fin 0]) = NaN"
    apply (simp add: type2_counts_def)
   apply (simp add: model_probs_def sdt_means_def type2_probs_def t2c1x_def py_slice_def
        py_slice_from_def slice_bound_def bindE_def py_div_def constant_criterion_def fsub_def
        upt_rec [of 0] upt_rec [of 1] numeral_2_eq_2 Let_def)
  apply (simp add: logL_sum_def np_sum_def upt_rec [of 0] upt_rec [of 1] numeral_2_eq_2
      signed_inf_def)
  done

lemma logL_positive_bins:
  "type2_counts ([0, 0, 1, 1], [1, 1, 0, 0], 2, Fin 1, Fin 1, 1, uniform_cdf, logistic_ppf)
     = Inr ([0, 0], [1, 1], [0, 0], [1, 1])"
  "model_probs [Fin (1 / 2), Fin (- (1 / 8)), Fin (1 / 8)]
       ([0, 0, 1, 1], [1, 1, 0, 0], 2, Fin 1, Fin 1, 1, uniform_cdf, logistic_ppf)
     = Inr ([Fin (5 / 6), Fin (1 / 6)], [Fin (1 / 2), Fin (1 / 2)],
            [Fin (1 / 6), Fin (5 / 6)], [Fin (1 / 2), Fin (1 / 2)])"
  "logL_sum 2 ([0, 0], [1, 1], [0, 0], [1, 1])
     ([Fin (5 / 6), Fin (1 / 6)], [Fin (1 / 2), Fin (1 / 2)],
      [Fin (1 / 6), Fin (5 / 6)], [Fin (1 / 2), Fin (1 / 2)]) = Fin (4 * ln (1 / 2))"
    apply (simp add: type2_counts_def)
   apply (simp add: model_probs_def sdt_means_def type2_probs_def t2c1x_def py_slice_def
        py_slice_from_def slice_bound_def bindE_def py_div_def constant_criterion_def fsub_def
        upt_rec [of 0] upt_rec [of 1] numeral_2_eq_2 Let_def)
  apply (simp add: logL_sum_def np_sum_def upt_rec [of 0] upt_rec [of 1] numeral_2_eq_2)
  done

text \<open>
  C3 at these two inputs: \<open>1e+300\<close> where the safeguard engages, \<open>-logL\<close> where it does
  not.
\<close>

theorem fit_meta_d_logL_safeguard_witness:
  "fit_meta_d_logL [Fin 1, Fin (- 1), Fin 1]
       ([3, 0, 2, 1], [1, 2, 0, 3], 2, Fin 1, Fin 0, 1, uniform_cdf, logistic_ppf)
     = Inr (Fin (10 ^ 300))
   \<and> fit_meta_d_logL [Fin (1 / 2), Fin (- (1 / 8)), Fin (1 / 8)]
       ([0, 0, 1, 1], [1, 1, 0, 0], 2, Fin 1, Fin 1, 1, uniform_cdf, logistic_ppf)
     = Inr (Fin (- (4 * ln (1 / 2))))"
proof -
  note t1 = fit_meta_d_logL_safeguard [of "[Fin 1, Fin (- 1), Fin 1]" "[3, 0, 2, 1]"
      "[1, 2, 0, 3]" 2 "Fin 1" "Fin 0" 1 uniform_cdf logistic_ppf]
  note t2 = fit_meta_d_logL_safeguard [of "[Fin (1 / 2), Fin (- (1 / 8)), Fin (1 / 8)]"
      "[0, 0, 1, 1]" "[1, 1, 0, 0]" 2 "Fin 1" "Fin 1" 1 uniform_cdf logistic_ppf]
  obtain r1 where r1: "fit_meta_d_logL [Fin 1, Fin (- 1), Fin 1]
       ([3, 0, 2, 1], [1, 2, 0, 3], 2, Fin 1, Fin 0, 1, uniform_cdf, logistic_ppf) = Inr (Fin r1)"
    using t1 by auto
  obtain r2 where r2: "fit_meta_d_logL [Fin (1 / 2), Fin (- (1 / 8)), Fin (1 / 8)]
       ([0, 0, 1, 1], [1, 1, 0, 0], 2, Fin 1, Fin 1, 1, uniform_cdf, logistic_ppf) = Inr (Fin r2)"
    using t2 by auto
  have "Fin r1 = Fin (10 ^ 300)"
    using t1 r1 by (auto simp: logL_zero_bin)
  moreover have "Fin r2 = Fin (- (4 * ln (1 / 2)))"
    using t2 r2 by (auto simp: logL_positive_bins)
  ultimately show ?thesis using r1 r2 by simp
qed

lemma foldl_fadd_Fin: "foldl fadd (Fin a) (map Fin rs) = Fin (a + sum_list rs)"
  by (induction rs arbitrary: a) (auto simp: algebra_simps)

lemma np_sum_Fin: "np_sum (map Fin rs) = Fin (sum_list rs)"
  by (simp add: np_sum_def foldl_fadd_Fin)

lemma telescope_div:
  "(\<Sum>i\<leftarrow>[0..<n]. (f (Suc i) - f i) / c) = (f n - f 0) / (c::real)"
  by (induction n) (auto simp: add_divide_distrib [symmetric])

lemma telescope_div_upper:
  "(\<Sum>i\<leftarrow>[0..<n]. ((1 - f (k + i)) - (1 - f (Suc (k + i)))) / c) = (f (k + n) - f k) / (c::real)"
  by (induction n) (auto simp: add_divide_distrib [symmetric])

lemma lower_branch_sum:
  assumes vals: "\<And>i. i \<le> K \<Longrightarrow> F (x ! i) = Fin (g i)"
    and area: "A = Fin (g K)" and nz: "g K \<noteq> 0" and bot: "g 0 = 0"
  shows "np_sum (map (\<lambda>i. fdiv (fsub (F (x ! (i + 1))) (F (x ! i))) A) [0..<K]) = Fin 1"
proof -
  have "map (\<lambda>i. fdiv (fsub (F (x ! (i + 1))) (F (x ! i))) A) [0..<K]
      = map Fin (map (\<lambda>i. (g (Suc i) - g i) / g K) [0..<K])"
    using vals nz by (simp add: area fsub_def)
  then show ?thesis
    using nz bot by (simp only: np_sum_Fin telescope_div) simp
qed

lemma upper_branch_sum:
  assumes vals: "\<And>i. i \<le> 2 * K \<Longrightarrow> F (x ! i) = Fin (g i)"
    and area: "A = fsub (Fin 1) (Fin (g K))" and nz: "g K \<noteq> 1" and top: "g (2 * K) = 1"
  shows "np_sum (map (\<lambda>i. fdiv (fsub (fsub (Fin 1) (F (x ! (K + i))))
                                      (fsub (Fin 1) (F (x ! (K + i + 1))))) A) [0..<K]) = Fin 1"
proof -
  have "map (\<lambda>i. fdiv (fsub (fsub (Fin 1) (F (x ! (K + i))))
                           (fsub (Fin 1) (F (x ! (K + i + 1))))) A) [0..<K]
      = map Fin (map (\<lambda>i. ((1 - g (K + i)) - (1 - g (Suc (K + i)))) / (1 - g K)) [0..<K])"
    using vals nz by (simp add: area fsub_def)
  then show ?thesis
    using nz top by (simp only: np_sum_Fin telescope_div_upper) (simp add: mult_2)
qed

lemma t2c1x_shape:
  assumes "1 \<le> K" "length t2c1 = 2 * K - 2"
  shows "length (t2c1x K t2c1) = 2 * K + 1"
    and "t2c1x K t2c1 ! 0 = NInf"
    and "t2c1x K t2c1 ! K = Fin 0"
    and "t2c1x K t2c1 ! (2 * K) = PInf"
    and "t2c1x K t2c1 = [NInf] @ take (K - 1) t2c1 @ [Fin 0] @ drop (K - 1) t2c1 @ [PInf]"
proof -
  have b: "slice_bound (length t2c1) (int K - 1) = K - 1" "slice_bound (length t2c1) 0 = 0"
    using assms by (auto simp: slice_bound_def)
  show e: "t2c1x K t2c1 = [NInf] @ take (K - 1) t2c1 @ [Fin 0] @ drop (K - 1) t2c1 @ [PInf]"
    by (simp add: t2c1x_def py_slice_def py_slice_from_def b)
  show "length (t2c1x K t2c1) = 2 * K + 1" using assms by (simp add: e)
  show "t2c1x K t2c1 ! 0 = NInf" by (simp add: e)
  have l: "length ([NInf] @ take (K - 1) t2c1) = K" using assms by simp
  show "t2c1x K t2c1 ! K = Fin 0"
    unfolding e using l by (metis append.assoc nth_append_length append_Cons)
  have "length ([NInf] @ take (K - 1) t2c1 @ [Fin 0] @ drop (K - 1) t2c1) = 2 * K"
    using assms by simp
  then show "t2c1x K t2c1 ! (2 * K) = PInf"
    unfolding e by (metis append.assoc nth_append_length)
qed

lemma t2c1x_not_nan:
  assumes "1 \<le> K" "length t2c1 = 2 * K - 2" "list_all isfinite t2c1" "i \<le> 2 * K"
  shows "t2c1x K t2c1 ! i \<noteq> NaN"
proof -
  have "set (t2c1x K t2c1) \<subseteq> {NInf, Fin 0, PInf} \<union> set t2c1"
    unfolding t2c1x_shape(5) [OF assms(1,2)]
    using set_take_subset [of "K - 1" t2c1] set_drop_subset [of "K - 1" t2c1] by auto
  moreover have "t2c1x K t2c1 ! i \<in> set (t2c1x K t2c1)"
    using assms(4) t2c1x_shape(1) [OF assms(1,2)] by simp
  moreover have "NaN \<notin> set t2c1"
    using assms(3) by (auto simp: list_all_iff)
  ultimately show ?thesis by auto
qed

lemma is_cdf_values:
  assumes "is_cdf fncdf mu sd" "y \<noteq> NaN"
  shows "\<exists>r. fncdf y mu sd = Fin r"
  using assms by (cases y) (auto simp: is_cdf_def)

lemma is_cdf_ends:
  assumes "is_cdf fncdf mu sd"
  shows "fncdf NInf mu sd = Fin 0" "fncdf PInf mu sd = Fin 1"
  using assms by (auto simp: is_cdf_def)

lemma branch_sums:
  assumes K: "1 \<le> K" and len: "length t2c1 = 2 * K - 2" and fin: "list_all isfinite t2c1"
    and cdf: "is_cdf fncdf mu sd"
    and a0: "fncdf (Fin 0) mu sd \<noteq> Fin 0" and a1: "fncdf (Fin 0) mu sd \<noteq> Fin 1"
  shows "np_sum (map (\<lambda>i. fdiv (fsub (fncdf (t2c1x K t2c1 ! (i + 1)) mu sd)
                                  (fncdf (t2c1x K t2c1 ! i) mu sd))
                        (fncdf (Fin 0) mu sd)) [0..<K]) = Fin 1"
    and "np_sum (map (\<lambda>i. fdiv (fsub (fsub (Fin 1) (fncdf (t2c1x K t2c1 ! (K + i)) mu sd))
                                  (fsub (Fin 1) (fncdf (t2c1x K t2c1 ! (K + i + 1)) mu sd)))
                        (fsub (Fin 1) (fncdf (Fin 0) mu sd))) [0..<K]) = Fin 1"
proof -
  let ?x = "t2c1x K t2c1"
  let ?F = "\<lambda>y. fncdf y mu sd"
  have "\<forall>i. \<exists>r. i \<le> 2 * K \<longrightarrow> ?F (?x ! i) = Fin r"
    using is_cdf_values [OF cdf] t2c1x_not_nan [OF K len fin] by blast
  then obtain g where g: "\<And>i. i \<le> 2 * K \<Longrightarrow> ?F (?x ! i) = Fin (g i)"
    by metis
  have g0: "g 0 = 0"
    using g [of 0] t2c1x_shape(2) [OF K len] is_cdf_ends(1) [OF cdf] by simp
  have gK: "?F (Fin 0) = Fin (g K)"
    using g [of K] t2c1x_shape(3) [OF K len] by simp
  have g2K: "g (2 * K) = 1"
    using g [of "2 * K"] t2c1x_shape(4) [OF K len] is_cdf_ends(2) [OF cdf] by simp
  have nz: "g K \<noteq> 0" "g K \<noteq> 1" using a0 a1 gK by auto
  show "np_sum (map (\<lambda>i. fdiv (fsub (?F (?x ! (i + 1))) (?F (?x ! i))) (?F (Fin 0))) [0..<K]) = Fin 1"
    by (rule lower_branch_sum [where F = ?F and g = g]) (simp_all add: g gK nz g0)
  show "np_sum (map (\<lambda>i. fdiv (fsub (fsub (Fin 1) (?F (?x ! (K + i))))
                                  (fsub (Fin 1) (?F (?x ! (K + i + 1)))))
                        (fsub (Fin 1) (?F (Fin 0)))) [0..<K]) = Fin 1"
    by (rule upper_branch_sum [where F = ?F and g = g]) (simp_all add: g gK nz g2K)
qed

lemma uniform_is_cdf:
  assumes "0 < scale"
  shows "is_cdf uniform_cdf (Fin loc) (Fin scale)"
proof -
  let ?f = "\<lambda>x. max 0 (min 1 ((x - loc) / scale))"
  have v: "\<forall>x. uniform_cdf (Fin x) (Fin loc) (Fin scale) = Fin (?f x)"
    using assms by simp
  have m: "mono ?f"
  proof (rule monoI)
    fix x y :: real
    assume "x \<le> y"
    then have "(x - loc) / scale \<le> (y - loc) / scale"
      using assms by (simp add: divide_right_mono)
    then show "?f x \<le> ?f y" by linarith
  qed
  have "?f x = 0" if "x \<le> loc" for x
  proof -
    have "(x - loc) / scale \<le> 0"
      using assms that by (simp add: divide_le_0_iff)
    then show ?thesis by linarith
  qed
  then have "eventually (\<lambda>x. ?f x = 0) at_bot"
    unfolding eventually_at_bot_linorder by blast
  then have b: "(?f \<longlongrightarrow> 0) at_bot" by (rule tendsto_eventually)
  have "?f x = 1" if "loc + scale \<le> x" for x
  proof -
    have "1 \<le> (x - loc) / scale"
      using assms that by (simp add: le_divide_eq)
    then show ?thesis by linarith
  qed
  then have "eventually (\<lambda>x. ?f x = 1) at_top"
    unfolding eventually_at_top_linorder by blast
  then have t: "(?f \<longlongrightarrow> 1) at_top" by (rule tendsto_eventually)
  from v m b t assms show ?thesis
    unfolding is_cdf_def by (intro conjI exI [of _ ?f]) simp_all
qed

text \<open>
  C2, amended. For \<open>K \<ge> 1\<close> ratings and a parameter vector of \<open>2 * K - 1\<close> finite numbers,
  if \<^verbatim>\<open>fncdf\<close> is a cumulative distribution function at the means and standard deviations
  of the model and its value at the type 1 criterion is neither 0 nor 1 for either
  distribution, then each of the four lists of bin probabilities has \<open>K\<close> entries that add
  up to 1.
\<close>

theorem type2_probs_sum_to_one:
  assumes "1 \<le> K" and "length parameters = 2 * K - 1" and "list_all isfinite parameters"
    and "sdt_means parameters (nR_S1, nR_S2, K, d1, t1c1, s, fncdf, fninv)
           = Inr (S1mu, S1sd, S2mu, S2sd)"
    and "is_cdf fncdf S1mu (Fin S1sd)" and "is_cdf fncdf S2mu (Fin S2sd)"
    and "fncdf (Fin 0) S1mu (Fin S1sd) \<noteq> Fin 0" and "fncdf (Fin 0) S1mu (Fin S1sd) \<noteq> Fin 1"
    and "fncdf (Fin 0) S2mu (Fin S2sd) \<noteq> Fin 0" and "fncdf (Fin 0) S2mu (Fin S2sd) \<noteq> Fin 1"
  shows "\<exists>prC_rS1 prI_rS1 prC_rS2 prI_rS2.
           model_probs parameters (nR_S1, nR_S2, K, d1, t1c1, s, fncdf, fninv)
             = Inr (prC_rS1, prI_rS1, prC_rS2, prI_rS2)
           \<and> length prC_rS1 = K \<and> length prI_rS1 = K \<and> length prC_rS2 = K \<and> length prI_rS2 = K
           \<and> np_sum prC_rS1 = Fin 1 \<and> np_sum prI_rS1 = Fin 1
           \<and> np_sum prC_rS2 = Fin 1 \<and> np_sum prI_rS2 = Fin 1"
proof -
  let ?t = "tl parameters"
  have len: "length ?t = 2 * K - 2" using assms(2) by simp
  have fin: "list_all isfinite ?t"
    using assms(3) by (cases parameters) simp_all
  have ok: "\<not> (0 < K \<and> length (t2c1x K ?t) < 2 * K + 1)"
    using t2c1x_shape(1) [OF assms(1) len] by simp
  note S1 = branch_sums [OF assms(1) len fin assms(5) assms(7) assms(8)]
  note S2 = branch_sums [OF assms(1) len fin assms(6) assms(9) assms(10)]
  show ?thesis
    unfolding model_probs_def type2_probs_def Let_def
    using ok S1 S2 by (simp add: assms(4) bindE_def)
qed

text \<open>
  C2, amended, for the uniform distribution with both means below the type 1 criterion.
\<close>

theorem type2_probs_sum_to_one_witness:
  "\<exists>prC_rS1 prI_rS1 prC_rS2 prI_rS2.
     model_probs [Fin (1 / 2), Fin (- (1 / 2)), Fin (1 / 2)]
         ([1, 1, 1, 1], [1, 1, 1, 1], 2, Fin 1, Fin 1, 1, uniform_cdf, logistic_ppf)
       = Inr (prC_rS1, prI_rS1, prC_rS2, prI_rS2)
     \<and> length prC_rS1 = 2 \<and> length prI_rS1 = 2 \<and> length prC_rS2 = 2 \<and> length prI_rS2 = 2
     \<and> np_sum prC_rS1 = Fin 1 \<and> np_sum prI_rS1 = Fin 1
     \<and> np_sum prC_rS2 = Fin 1 \<and> np_sum prI_rS2 = Fin 1"
proof -
  have m: "sdt_means [Fin (1 / 2), Fin (- (1 / 2)), Fin (1 / 2)]
         ([1, 1, 1, 1], [1, 1, 1, 1], 2, Fin 1, Fin 1, 1, uniform_cdf, logistic_ppf)
       = Inr (Fin (- (3 / 4)), 1, Fin (- (1 / 4)), 1)"
    by (simp add: sdt_means_def bindE_def py_div_def constant_criterion_def fsub_def)
  show ?thesis
    by (rule type2_probs_sum_to_one [OF _ _ _ m]) (simp_all add: uniform_is_cdf)
qed

lemma model_probs_uniform:
  "model_probs [Fin 1, Fin (- 1), Fin 1]
       ([1, 1, 1, 1], [1, 1, 1, 1], 2, Fin 1, Fin 0, 1, uniform_cdf, logistic_ppf)
     = Inr ([Fin 0, Fin 1], [NaN, NaN], [Fin (1 / 2), Fin (1 / 2)], [Fin 1, Fin 0])"
  by (simp add: model_probs_def sdt_means_def type2_probs_def t2c1x_def py_slice_def
        py_slice_from_def slice_bound_def bindE_def py_div_def constant_criterion_def fsub_def
        upt_rec [of 0] upt_rec [of 1] numeral_2_eq_2 Let_def)

text \<open>
  C2, as the specification states it, fails for a distribution function that is 0 at the
  type 1 criterion: the uniform distribution on \<open>[1/2, 3/2]\<close> puts no mass below 0, the area
  \<open>I_area_rS1\<close> is 0, and both entries of \<open>prI_rS1\<close> are \<open>0 / 0\<close>. The criteria \<open>-1\<close> and
  \<open>1\<close> are ordered.
\<close>

theorem type2_probs_sum_counterexample:
  "is_cdf uniform_cdf (Fin (- (1 / 2))) (Fin 1) \<and> is_cdf uniform_cdf (Fin (1 / 2)) (Fin 1)
   \<and> sdt_means [Fin 1, Fin (- 1), Fin 1]
       ([1, 1, 1, 1], [1, 1, 1, 1], 2, Fin 1, Fin 0, 1, uniform_cdf, logistic_ppf)
     = Inr (Fin (- (1 / 2)), 1, Fin (1 / 2), 1)
   \<and> model_probs [Fin 1, Fin (- 1), Fin 1]
       ([1, 1, 1, 1], [1, 1, 1, 1], 2, Fin 1, Fin 0, 1, uniform_cdf, logistic_ppf)
     = Inr ([Fin 0, Fin 1], [NaN, NaN], [Fin (1 / 2), Fin (1 / 2)], [Fin 1, Fin 0])
   \<and> np_sum [NaN, NaN] \<noteq> Fin 1"
proof -
  have "sdt_means [Fin 1, Fin (- 1), Fin 1]
       ([1, 1, 1, 1], [1, 1, 1, 1], 2, Fin 1, Fin 0, 1, uniform_cdf, logistic_ppf)
     = Inr (Fin (- (1 / 2)), 1, Fin (1 / 2), 1)"
    by (simp add: sdt_means_def bindE_def py_div_def constant_criterion_def fsub_def)
  moreover have "np_sum [NaN, NaN] \<noteq> Fin 1"
    by (simp add: np_sum_def)
  ultimately show ?thesis
    using model_probs_uniform by (simp add: uniform_is_cdf)
qed

section \<open>Properties of fit\_meta\_d\_MLE\<close>

subsection \<open>The constraints\<close>






subsection \<open>The initial guess\<close>




lemma set_t2_index: "set (t2_index K) = {i. i < 2 * K - 1 \<and> i \<noteq> K - 1}"
  by (auto simp: t2_index_def)

lemma length_t2_index: "1 \<le> K \<Longrightarrow> length (t2_index K) = 2 * K - 2"
proof -
  assume K: "1 \<le> K"
  have "length (t2_index K) = card ({i. i \<noteq> K - 1} \<inter> set [0..<2 * K - 1])"
    unfolding t2_index_def by (rule distinct_length_filter) simp
  also have "{i. i \<noteq> K - 1} \<inter> set [0..<2 * K - 1] = {0..<2 * K - 1} - {K - 1}"
    by auto
  also have "card ({0..<2 * K - 1} - {K - 1}) = card {0..<2 * K - 1} - 1"
    using K by (intro card_Diff_singleton) auto
  finally show ?thesis by simp
qed





lemma initial_guess_eq:
  fixes s :: real and fninv :: invcdf and nR_S1 nR_S2 :: "real list" and K :: nat
  defines "hr \<equiv> \<lambda>i. sum_list (drop (i + 1) nR_S2) / sum_list nR_S2"
    and "far \<equiv> \<lambda>i. sum_list (drop (i + 1) nR_S1) / sum_list nR_S1"
  defines "c1 \<equiv> \<lambda>i. fmul (Fin (- 1 / (1 + s))) (fadd (fninv (Fin (hr i))) (fninv (Fin (far i))))"
    and "d1 \<equiv> fsub (fmul (Fin (1 / s)) (fninv (Fin (hr (K - 1))))) (fninv (Fin (far (K - 1))))"
  assumes K: "1 \<le> K" and nz: "sum_list nR_S1 \<noteq> 0" "sum_list nR_S2 \<noteq> 0"
    and s: "s \<noteq> 0" "s \<noteq> - 1"
  shows "initial_guess s fninv nR_S1 nR_S2 K =
           Inr (d1 # map (\<lambda>i. fsub (c1 i) (constant_criterion d1 (c1 (K - 1)) d1)) (t2_index K),
                d1, c1 (K - 1))"
proof -
  define HR where "HR = map (\<lambda>c. sum_list (drop c nR_S2) / sum_list nR_S2) [1..<K * 2]"
  define FAR where "FAR = map (\<lambda>c. sum_list (drop c nR_S1) / sum_list nR_S1) [1..<K * 2]"
  define C1 where "C1 = map (\<lambda>(hr, far). fmul (Fin (- 1 / (1 + s)))
                      (fadd (fninv (Fin hr)) (fninv (Fin far)))) (zip HR FAR)"
  have r: "rating_rates nR_S1 nR_S2 K = Inr (HR, FAR)"
    using K nz by (simp add: rating_rates_def HR_def FAR_def)
  have len: "length HR = 2 * K - 1" "length FAR = 2 * K - 1"
    by (simp_all add: HR_def FAR_def mult.commute)
  have nth: "HR ! i = hr i" "FAR ! i = far i" if "i < 2 * K - 1" for i
    using that by (simp_all add: HR_def FAR_def hr_def far_def mult.commute)
  have C1: "C1 ! i = c1 i" if "i < 2 * K - 1" for i
    using that len by (simp add: C1_def c1_def nth)
  have t1: "K - 1 < 2 * K - 1" using K by linarith
  have s1: "1 + s \<noteq> 0" using s(2) by linarith
  have m: "map (\<lambda>i. C1 ! i) (t2_index K) = map c1 (t2_index K)"
    by (rule map_cong) (simp_all add: set_t2_index C1)
  have pd: "py_div 1 s = Inr (1 / s)" "py_div (- 1) (1 + s) = Inr (- 1 / (1 + s))"
    using s s1 by (simp_all add: py_div_def)
  have K0: "(K = 0) = False" using K by simp
  have "initial_guess s fninv nR_S1 nR_S2 K =
          Inr ([d1] @ map (\<lambda>c. fsub c (constant_criterion d1 (C1 ! (K - 1)) d1))
                        (map (\<lambda>i. C1 ! i) (t2_index K)),
               d1, C1 ! (K - 1))"
    unfolding initial_guess_def r bindE_def pd sum.case prod.case Let_def K0 if_False
      C1_def [symmetric] nth [OF t1] d1_def [symmetric]
    by (rule refl)
  then show ?thesis
    unfolding m C1 [OF t1] by (simp add: comp_def)
qed





lemma logistic_ppf_interior:
  "\<forall>p. 0 < p \<and> p < 1 \<longrightarrow> isfinite (logistic_ppf (Fin p))"
  by simp




subsection \<open>The packaged result\<close>

lemma package_fit_ratio:
  assumes "package_fit nR_S1 nR_S2 nRatings s fncdf d1 t1c1 results = Inr fit"
  shows "fit_M_ratio fit = fdiv (fit_meta_da fit) (fit_da fit)"
    and "fit_M_diff fit = fsub (fit_meta_da fit) (fit_da fit)"
  using assms
  by (auto simp: package_fit_def bindE_Inr_iff Let_def split: prod.splits list.splits)

lemma fit_meta_d_MLE_packaged:
  assumes "fit_meta_d_MLE minimize nR_S1 nR_S2 s fncdf fninv = Inr fit"
  shows "\<exists>K d1 t1c1 results. package_fit nR_S1 nR_S2 K s fncdf d1 t1c1 results = Inr fit"
  using assms
  by (auto simp: fit_meta_d_MLE_def bindE_Inr_iff Let_def split: if_splits) blast

lemma fdiv_by_zero:
  "\<not> isfinite (fdiv a (Fin 0))" "fdiv a (Fin 0) = NaN \<longleftrightarrow> a = Fin 0 \<or> a = NaN"
  by (cases a; auto simp: signed_inf_def)+

text \<open>
  The ratio and the difference as the code computes them. Whenever \<^verbatim>\<open>fit_meta_d_MLE\<close>
  returns, \<open>M_ratio\<close> is the NumPy quotient of \<open>meta_da\<close> by \<open>da\<close> and \<open>M_diff\<close> their
  difference. When \<open>da\<close> is 0 the quotient is not a finite number: it is not-a-number
  when \<open>meta_da\<close> is 0 or not-a-number, and an infinity otherwise. Which of these occurs
  is decided by the meta-d' that the optimiser returns.
\<close>

lemma fit_M_ratio_quotient:
  assumes "fit_meta_d_MLE minimize nR_S1 nR_S2 s fncdf fninv = Inr fit"
  shows "fit_M_ratio fit = fdiv (fit_meta_da fit) (fit_da fit)
     \<and> fit_M_diff fit = fsub (fit_meta_da fit) (fit_da fit)
     \<and> (fit_da fit = Fin 0 \<longrightarrow>
          \<not> isfinite (fit_M_ratio fit)
          \<and> (fit_M_ratio fit = NaN \<longleftrightarrow> fit_meta_da fit = Fin 0 \<or> fit_meta_da fit = NaN))
     \<and> (\<forall>a b. fit_da fit = Fin a \<and> a \<noteq> 0 \<and> fit_meta_da fit = Fin b \<longrightarrow>
          fit_M_ratio fit = Fin (b / a) \<and> fit_M_diff fit = Fin (b - a))"
proof -
  obtain K d1 t1c1 results
    where p: "package_fit nR_S1 nR_S2 K s fncdf d1 t1c1 results = Inr fit"
    using fit_meta_d_MLE_packaged [OF assms] by blast
  note r = package_fit_ratio [OF p]
  show ?thesis
    unfolding r by (auto simp: fdiv_by_zero fsub_def)
qed

text \<open>
  \<open>da\<close> is 0 exactly when the type 1 \<open>d1\<close> is 0. The constant criterion is then
  \<open>0 * (t1c1 / 0)\<close>, not-a-number, and so is every criterion of the initial guess: the
  optimiser is started from a point that is not a number.
\<close>

lemma package_fit_da:
  assumes "package_fit nR_S1 nR_S2 nRatings s fncdf d1 t1c1 results = Inr fit"
  shows "fit_da fit = fmul (fmul (fsqrt (Fin (2 / (1 + s\<^sup>2)))) (Fin s)) d1"
    and "fit_meta_da fit = fmul (fmul (fsqrt (Fin (2 / (1 + s\<^sup>2)))) (Fin s))
                             (S1units_meta_d1 (fit_S1units fit))"
    and "S1units_d1 (fit_S1units fit) = d1"
  using assms
  by (auto simp: package_fit_def bindE_Inr_iff Let_def split: prod.splits list.splits)

lemma fit_da_zero_iff:
  assumes "package_fit nR_S1 nR_S2 nRatings s fncdf d1 t1c1 results = Inr fit" and "s \<noteq> 0"
  shows "fit_da fit = Fin 0 \<longleftrightarrow> d1 = Fin 0"
proof -
  have "0 < 2 / (1 + s\<^sup>2)"
    by (intro divide_pos_pos) (simp_all add: add_pos_nonneg)
  then have c: "fmul (fsqrt (Fin (2 / (1 + s\<^sup>2)))) (Fin s) = Fin (sqrt (2 / (1 + s\<^sup>2)) * s)"
    and "sqrt (2 / (1 + s\<^sup>2)) \<noteq> 0"
    by simp_all
  then have "sqrt (2 / (1 + s\<^sup>2)) * s \<noteq> 0" using assms(2) by simp
  then show ?thesis
    unfolding package_fit_da(1) [OF assms(1)] c
    by (cases d1) (simp_all add: signed_inf_def)
qed

lemma constant_criterion_zero_d1: "constant_criterion (Fin 0) t1c1 (Fin 0) = NaN"
  by (cases t1c1) (simp_all add: constant_criterion_def signed_inf_def)

lemma fsub_NaN: "fsub a NaN = NaN"
  by (cases a) (simp_all add: fsub_def)

lemma initial_guess_zero_d1:
  assumes "1 \<le> K" and "sum_list nR_S1 \<noteq> 0" and "sum_list nR_S2 \<noteq> 0"
    and "s \<noteq> 0" and "s \<noteq> - 1"
    and "initial_guess s fninv nR_S1 nR_S2 K = Inr (guess, Fin 0, t1c1)"
  shows "guess = Fin 0 # replicate (2 * K - 2) NaN"
proof -
  note e = initial_guess_eq [OF assms(1-5), of fninv]
  from assms(6) [unfolded e] show ?thesis
    by (auto simp: constant_criterion_zero_d1 fsub_NaN map_replicate_const
        length_t2_index [OF assms(1)])
qed

lemma chance_initial_guess:
  "initial_guess 1 logistic_ppf [1, 1, 1, 1] [1, 1, 1, 1] 2 = Inr ([Fin 0, NaN, NaN], Fin 0, Fin 0)"
  by (simp add: initial_guess_def rating_rates_def t2_index_def bindE_def
      py_div_def constant_criterion_def fsub_def signed_inf_def upt_rec [of 0] upt_rec [of 1]
      upt_rec [of 2] numeral_2_eq_2 Let_def)




section \<open>The first end-to-end scenario\<close>

subsection \<open>The normal distribution function\<close>



lemma phi_series_0: "phi_series 0 = 0"
  by (simp add: phi_series_def)


lemma std_normal_cdf_0: "std_normal_cdf 0 = 1 / 2"
  by (simp add: std_normal_cdf_def phi_series_0)















subsection \<open>The fitted da\<close>









end
